theory Spec2Isabelle
  imports Main
begin

section \<open>Python string operations used by the check runner\<close>

text \<open>
  Strings are lists of characters. The functions below are the Python string
  methods that \<^verbatim>\<open>selenium_runner.py\<close> and \<^verbatim>\<open>main.py\<close> call, for
  ASCII text: \<^verbatim>\<open>startswith\<close>, the substring test \<^verbatim>\<open>in\<close>,
  \<^verbatim>\<open>split\<close> with a one-character separator, \<^verbatim>\<open>replace\<close>,
  \<^verbatim>\<open>strip\<close>/\<^verbatim>\<open>lstrip\<close> with a set of characters,
  \<^verbatim>\<open>int\<close> and \<^verbatim>\<open>str\<close> of an integer.
\<close>

fun startswith :: "string \<Rightarrow> string \<Rightarrow> bool" where
  "startswith s [] = True"
| "startswith [] (p # ps) = False"
| "startswith (c # cs) (p # ps) = (c = p \<and> startswith cs ps)"

text \<open>\<^verbatim>\<open>sub in s\<close>\<close>

fun contains :: "string \<Rightarrow> string \<Rightarrow> bool" where
  "contains [] sub = (sub = [])"
| "contains (c # cs) sub = (startswith (c # cs) sub \<or> contains cs sub)"

text \<open>\<^verbatim>\<open>s.split(sep)\<close> for a separator of one character: never empty.\<close>

fun split_on :: "char \<Rightarrow> string \<Rightarrow> string list" where
  "split_on sep [] = [[]]"
| "split_on sep (c # cs) =
     (if c = sep then [] # split_on sep cs
      else (case split_on sep cs of
              [] \<Rightarrow> [[c]]
            | w # ws \<Rightarrow> (c # w) # ws))"

text \<open>\<^verbatim>\<open>s.lstrip(chars)\<close> and \<^verbatim>\<open>s.strip(chars)\<close>\<close>

definition lstrip :: "string \<Rightarrow> string \<Rightarrow> string" where
  "lstrip chars s = dropWhile (\<lambda>c. c \<in> set chars) s"

definition strip :: "string \<Rightarrow> string \<Rightarrow> string" where
  "strip chars s = rev (lstrip chars (rev (lstrip chars s)))"

text \<open>
  \<^verbatim>\<open>s.replace(old, new)\<close>: every non-overlapping occurrence, from the left.
  For an empty \<open>old\<close> Python puts \<open>new\<close> before every character and at the end.
\<close>

function replace :: "string \<Rightarrow> string \<Rightarrow> string \<Rightarrow> string" where
  "replace old new [] = (if old = [] then new else [])"
| "replace old new (c # cs) =
     (if old = [] then new @ c # replace old new cs
      else if startswith (c # cs) old
        then new @ replace old new (drop (length old) (c # cs))
      else c # replace old new cs)"
  by pat_completeness auto
termination
  by (relation "measure (\<lambda>(old, new, s). length s)") auto

text \<open>\<^verbatim>\<open>str(n)\<close> for an integer: decimal digits, a minus sign when negative.\<close>

definition digit_char :: "nat \<Rightarrow> char" where
  "digit_char d = char_of (48 + d)"

function str_nat :: "nat \<Rightarrow> string" where
  "str_nat n = (if n < 10 then [digit_char n] else str_nat (n div 10) @ [digit_char (n mod 10)])"
  by pat_completeness auto
termination
  by (relation "measure id") auto

declare str_nat.simps [simp del]

definition str_int :: "int \<Rightarrow> string" where
  "str_int i = (if i < 0 then CHR ''-'' # str_nat (nat (- i)) else str_nat (nat i))"

text \<open>
  \<^verbatim>\<open>int(s)\<close> in base 10: surrounding ASCII whitespace is dropped, one sign is
  allowed, then digits, where a single underscore may stand between two digits.
  \<open>None\<close> is Python's \<^verbatim>\<open>ValueError\<close>. (The interpreter's configurable limit on
  the number of digits is not part of the grammar and is left out.)
\<close>

definition is_digit :: "char \<Rightarrow> bool" where
  "is_digit c = ((48::nat) \<le> of_char c \<and> of_char c \<le> (57::nat))"

definition digit_val :: "char \<Rightarrow> nat" where
  "digit_val c = of_char c - 48"

definition whitespace :: string where
  "whitespace = [CHR '' '', CHR 0x09, CHR 0x0A, CHR 0x0B, CHR 0x0C, CHR 0x0D]"

fun digits_from :: "nat \<Rightarrow> string \<Rightarrow> nat option" where
  "digits_from acc [] = Some acc"
| "digits_from acc [c] = (if is_digit c then Some (acc * 10 + digit_val c) else None)"
| "digits_from acc (c # d # ds) =
     (if is_digit c then digits_from (acc * 10 + digit_val c) (d # ds)
      else if c = CHR ''_'' \<and> is_digit d then digits_from (acc * 10 + digit_val d) ds
      else None)"

definition parse_digits :: "string \<Rightarrow> nat option" where
  "parse_digits s =
     (case s of
        [] \<Rightarrow> None
      | c # cs \<Rightarrow> if is_digit c then digits_from (digit_val c) cs else None)"

definition py_int :: "string \<Rightarrow> int option" where
  "py_int s =
     (case strip whitespace s of
        [] \<Rightarrow> None
      | c # cs \<Rightarrow>
          if c = CHR ''-'' then map_option (\<lambda>n. - int n) (parse_digits cs)
          else if c = CHR ''+'' then map_option int (parse_digits cs)
          else map_option int (parse_digits (c # cs)))"

text \<open>
  \<^verbatim>\<open>repr(s)\<close> of an ASCII string, as it appears in the message of the
  \<^verbatim>\<open>ValueError\<close> that \<^verbatim>\<open>int\<close> raises: single quotes, unless the string has a
  single quote and no double quote; the enclosing quote and the backslash are
  escaped, control characters are written as escapes.
\<close>

definition hex_digit :: "nat \<Rightarrow> char" where
  "hex_digit d = (if d < 10 then digit_char d else char_of (97 + (d - 10)))"

definition repr_char :: "char \<Rightarrow> char \<Rightarrow> string" where
  "repr_char q c =
     (if c = q \<or> c = CHR 0x5C then [CHR 0x5C, c]
      else if c = CHR 0x09 then [CHR 0x5C, CHR ''t'']
      else if c = CHR 0x0A then [CHR 0x5C, CHR ''n'']
      else if c = CHR 0x0D then [CHR 0x5C, CHR ''r'']
      else if (of_char c :: nat) < 32 \<or> c = CHR 0x7F
        then [CHR 0x5C, CHR ''x'', hex_digit (of_char c div 16),
            hex_digit (of_char c mod 16)]
      else [c])"

definition repr :: "string \<Rightarrow> string" where
  "repr s =
     (let q = (if CHR 0x27 \<in> set s \<and> CHR 0x22 \<notin> set s then CHR 0x22 else CHR 0x27)
      in q # concat (map (repr_char q) s) @ [q])"

text \<open>
  \<open>quoted s\<close> is \<open>s\<close> between two single quotes, as the f-strings of the
  source write \<^verbatim>\<open>'{s}'\<close>.
\<close>

definition quoted :: "string \<Rightarrow> string" where
  "quoted s = CHR 0x27 # s @ [CHR 0x27]"

section \<open>The browser session as seen by the runner\<close>

text \<open>
  \<^verbatim>\<open>run_selenium_checks\<close> drives a Chrome session through Selenium. The
  session is outside the program, so the model takes it as a record of
  operations over an abstract session state \<open>'b\<close> with element handles \<open>'e\<close>.
  Every operation returns the new session state together with either its
  result (\<open>Inr\<close>) or the text \<^verbatim>\<open>str(e)\<close> of the exception it raised
  (\<open>Inl\<close>): \<^verbatim>\<open>TimeoutException\<close>, \<^verbatim>\<open>NoSuchElementException\<close> or any
  other \<^verbatim>\<open>WebDriverException\<close>.

  \<^item> \<open>wd_open url\<close>: \<^verbatim>\<open>webdriver.Chrome(...)\<close>, \<^verbatim>\<open>set_page_load_timeout(15)\<close>,
    \<^verbatim>\<open>driver.get(url)\<close> and the two seconds of settling.
  \<^item> \<open>wd_title\<close>: \<^verbatim>\<open>driver.title\<close>.
  \<^item> \<open>wd_wait_visible t i\<close>:
    \<^verbatim>\<open>WebDriverWait(driver, t).until(EC.visibility_of_element_located((By.ID, i)))\<close>.
  \<^item> \<open>wd_wait_present t i\<close>: the same with \<^verbatim>\<open>EC.presence_of_element_located\<close>.
  \<^item> \<open>wd_wait_text t i s\<close>:
    \<^verbatim>\<open>WebDriverWait(driver, t).until(EC.text_to_be_present_in_element((By.ID, i), s))\<close>.
  \<^item> \<open>wd_wait_text_empty t i\<close>:
    \<^verbatim>\<open>WebDriverWait(driver, t).until(lambda d: d.find_element(By.ID, i).text == "")\<close>.
  \<^item> \<open>wd_text e\<close>: \<^verbatim>\<open>e.text\<close>.
  \<^item> \<open>wd_find_elements sel\<close>: \<^verbatim>\<open>driver.find_elements(By.CSS_SELECTOR, sel)\<close>.
  \<^item> \<open>wd_find_element i\<close>: \<^verbatim>\<open>driver.find_element(By.ID, i)\<close>.
  \<^item> \<open>wd_send_keys e s\<close>, \<open>wd_click e\<close>, \<open>wd_clear e\<close>: the element methods.
\<close>

type_synonym ('b, 'r) action = "'b \<Rightarrow> (string + 'r) \<times> 'b"

record ('b, 'e) webdriver =
  wd_open :: "string \<Rightarrow> string + 'b"
  wd_title :: "('b, string) action"
  wd_wait_visible :: "nat \<Rightarrow> string \<Rightarrow> ('b, 'e) action"
  wd_wait_present :: "nat \<Rightarrow> string \<Rightarrow> ('b, 'e) action"
  wd_wait_text :: "nat \<Rightarrow> string \<Rightarrow> string \<Rightarrow> ('b, unit) action"
  wd_wait_text_empty :: "nat \<Rightarrow> string \<Rightarrow> ('b, unit) action"
  wd_text :: "'e \<Rightarrow> ('b, string) action"
  wd_find_elements :: "string \<Rightarrow> ('b, 'e list) action"
  wd_find_element :: "string \<Rightarrow> ('b, 'e) action"
  wd_send_keys :: "'e \<Rightarrow> string \<Rightarrow> ('b, unit) action"
  wd_click :: "'e \<Rightarrow> ('b, unit) action"
  wd_clear :: "'e \<Rightarrow> ('b, unit) action"

text \<open>Sequencing: an exception ends the body of the \<^verbatim>\<open>try\<close>.\<close>

definition ret :: "'r \<Rightarrow> ('b, 'r) action" where
  "ret x = (\<lambda>b. (Inr x, b))"

definition raise :: "string \<Rightarrow> ('b, 'r) action" where
  "raise e = (\<lambda>b. (Inl e, b))"

definition bnd :: "('b, 'r) action \<Rightarrow> ('r \<Rightarrow> ('b, 's) action) \<Rightarrow> ('b, 's) action" where
  "bnd m f = (\<lambda>b. case m b of (Inl e, b') \<Rightarrow> (Inl e, b') | (Inr x, b') \<Rightarrow> f x b')"

text \<open>\<^verbatim>\<open>xs[i]\<close>: an \<^verbatim>\<open>IndexError\<close> out of range, with Python's message.\<close>

definition index :: "'a list \<Rightarrow> nat \<Rightarrow> ('b, 'a) action" where
  "index xs i = (if i < length xs then ret (xs ! i) else raise ''list index out of range'')"

text \<open>\<^verbatim>\<open>int(s)\<close> with its \<^verbatim>\<open>ValueError\<close>.\<close>

definition int_of :: "string \<Rightarrow> ('b, int) action" where
  "int_of s =
     (case py_int s of
        Some n \<Rightarrow> ret n
      | None \<Rightarrow> raise (''invalid literal for int() with base 10: '' @ repr s))"

section \<open>The checks of selenium_runner.py\<close>

record check_result =
  check :: string
  passed :: bool
  details :: string

text \<open>
  The conditions of the \<^verbatim>\<open>if\<close>/\<^verbatim>\<open>elif\<close> chain of the loop body, in the
  order of the source; the first that holds selects the branch.
\<close>

datatype branch =
  PageTitle | ElementExistence | ElementText | TableRows
| GithubOctocat | GithubLoading | GithubError | DefaultCase

definition select_branch :: "string \<Rightarrow> branch" where
  "select_branch check_str =
     (if startswith check_str ''Page title is'' then PageTitle
      else if startswith check_str ''Page contains an element with id'' then ElementExistence
      else if startswith check_str ''The text content of'' then ElementText
      else if contains check_str ''Table has at least'' then TableRows
      else if contains check_str (''After entering '' @ quoted ''octocat'') then GithubOctocat
      else if contains check_str (''When fetching user '' @ quoted ''octocat'') then GithubLoading
      else if contains check_str ''When fetching a user that does not exist'' then GithubError
      else DefaultCase)"

text \<open>
  The branch bodies. Each returns the pair \<open>(passed, details)\<close> it leaves
  behind; in every branch both variables are assigned only after the last
  operation that can raise.
\<close>

definition page_title_check :: "('b, 'e) webdriver \<Rightarrow> string \<Rightarrow> ('b, bool \<times> string) action" where
  "page_title_check wd check_str =
     (let expected_title = strip [CHR 0x27, CHR 0x22] (replace ''Page title is '' [] check_str)
      in bnd (wd_title wd) (\<lambda>actual_title.
           if actual_title = expected_title
           then ret (True, ''Page title is correctly '' @ quoted expected_title @ ''.'')
           else ret (False, ''Expected title '' @ quoted expected_title @ '', but got ''
                      @ quoted actual_title @ ''.'')))"

definition element_existence_check ::
  "('b, 'e) webdriver \<Rightarrow> string \<Rightarrow> ('b, bool \<times> string) action" where
  "element_existence_check wd check_str =
     bnd (if contains check_str [CHR 0x27]
          then index (split_on (CHR 0x27) check_str) 1
          else index (split_on (CHR 0x22) check_str) 1) (\<lambda>el_id.
     let element_id = lstrip ''#'' el_id in
     bnd (wd_wait_visible wd 5 element_id) (\<lambda>element.
     ret (True, ''Element with id '' @ quoted el_id @ '' is visible.'')))"

definition element_text_check ::
  "('b, 'e) webdriver \<Rightarrow> string \<Rightarrow> ('b, bool \<times> string) action" where
  "element_text_check wd check_str =
     (let parts = split_on (CHR 0x27) check_str in
      bnd (index parts 1) (\<lambda>p1.
      let el_id = lstrip ''#'' p1 in
      bnd (index parts 3) (\<lambda>expected_text.
      bnd (wd_wait_present wd 5 el_id) (\<lambda>element.
      bnd (wd_text wd element) (\<lambda>actual_text.
        if actual_text = expected_text
        then ret (True, ''Element '' @ quoted el_id @ '' has correct text: ''
                   @ quoted expected_text @ ''.'')
        else ret (False, ''Expected text '' @ quoted expected_text @ '', but got ''
                   @ quoted actual_text @ ''.''))))))"

definition table_rows_check ::
  "('b, 'e) webdriver \<Rightarrow> string \<Rightarrow> ('b, bool \<times> string) action" where
  "table_rows_check wd check_str =
     bnd (index (split_on (CHR '' '') check_str) 4) (\<lambda>tok.
     bnd (int_of tok) (\<lambda>count.
     bnd (wd_find_elements wd ''#sales-table tbody tr'') (\<lambda>els.
     let rows = int (length els) in
     if rows \<ge> count
     then ret (True, ''Table has '' @ str_int rows @ '' data rows, meeting the requirement.'')
     else ret (False, ''Expected at least '' @ str_int count @ '' rows, but found ''
                @ str_int rows @ ''.''))))"

definition github_octocat_check ::
  "('b, 'e) webdriver \<Rightarrow> string \<Rightarrow> ('b, bool \<times> string) action" where
  "github_octocat_check wd check_str =
     bnd (wd_find_element wd ''username-input'') (\<lambda>inp.
     bnd (wd_send_keys wd inp ''octocat'') (\<lambda>_.
     bnd (wd_find_element wd ''fetch-btn'') (\<lambda>btn.
     bnd (wd_click wd btn) (\<lambda>_.
     bnd (wd_wait_text wd 10 ''creation-date'' ''2011-01-25'') (\<lambda>creation_date.
     ret (True, ''GitHub user fetch for 'octocat' was successful.''))))))"

definition github_loading_check ::
  "('b, 'e) webdriver \<Rightarrow> string \<Rightarrow> ('b, bool \<times> string) action" where
  "github_loading_check wd check_str =
     bnd (wd_find_element wd ''username-input'') (\<lambda>inp0.
     bnd (wd_clear wd inp0) (\<lambda>_.
     bnd (wd_find_element wd ''username-input'') (\<lambda>inp.
     bnd (wd_send_keys wd inp ''octocat'') (\<lambda>_.
     bnd (wd_find_element wd ''fetch-btn'') (\<lambda>btn.
     bnd (wd_click wd btn) (\<lambda>_.
     bnd (wd_wait_text wd 2 ''api-status'' ''Loading...'') (\<lambda>loading_displayed.
     bnd (wd_wait_text_empty wd 10 ''api-status'') (\<lambda>_.
     ret (True, ''#api-status shows 'Loading...' then becomes empty.'')))))))))"

definition github_error_check ::
  "('b, 'e) webdriver \<Rightarrow> string \<Rightarrow> ('b, bool \<times> string) action" where
  "github_error_check wd check_str =
     bnd (wd_find_element wd ''username-input'') (\<lambda>inp0.
     bnd (wd_clear wd inp0) (\<lambda>_.
     bnd (wd_find_element wd ''username-input'') (\<lambda>inp.
     bnd (wd_send_keys wd inp ''nonexistentuser123456789'') (\<lambda>_.
     bnd (wd_find_element wd ''fetch-btn'') (\<lambda>btn.
     bnd (wd_click wd btn) (\<lambda>_.
     bnd (wd_wait_text wd 10 ''api-status'' ''User not found'') (\<lambda>error_shown.
     ret (True, ''#api-status displays 'User not found' for non-existent user.''))))))))"

definition default_case :: "string \<Rightarrow> ('b, bool \<times> string) action" where
  "default_case check_str = ret (False, ''Unknown check type: '' @ check_str)"

definition check_body :: "('b, 'e) webdriver \<Rightarrow> string \<Rightarrow> ('b, bool \<times> string) action" where
  "check_body wd check_str =
     (case select_branch check_str of
        PageTitle \<Rightarrow> page_title_check wd check_str
      | ElementExistence \<Rightarrow> element_existence_check wd check_str
      | ElementText \<Rightarrow> element_text_check wd check_str
      | TableRows \<Rightarrow> table_rows_check wd check_str
      | GithubOctocat \<Rightarrow> github_octocat_check wd check_str
      | GithubLoading \<Rightarrow> github_loading_check wd check_str
      | GithubError \<Rightarrow> github_error_check wd check_str
      | DefaultCase \<Rightarrow> default_case check_str)"

text \<open>
  One turn of the loop: the body inside its own \<^verbatim>\<open>try\<close>; an exception
  leaves \<open>passed = False\<close> and the detail \<^verbatim>\<open>Check failed: <message>\<close>; the
  result is appended in both cases.
\<close>

definition run_check :: "('b, 'e) webdriver \<Rightarrow> string \<Rightarrow> 'b \<Rightarrow> check_result \<times> 'b" where
  "run_check wd check_str b =
     (case check_body wd check_str b of
        (Inr (p, d), b') \<Rightarrow> (\<lparr>check = check_str, passed = p, details = d\<rparr>, b')
      | (Inl e, b') \<Rightarrow>
          (\<lparr>check = check_str, passed = False, details = ''Check failed: '' @ e\<rparr>, b'))"

text \<open>The \<^verbatim>\<open>for\<close> loop over the checks, on one session.\<close>

fun run_checks :: "('b, 'e) webdriver \<Rightarrow> 'b \<Rightarrow> string list \<Rightarrow> check_result list" where
  "run_checks wd b [] = []"
| "run_checks wd b (check_str # rest) =
     (case run_check wd check_str b of (r, b') \<Rightarrow> r # run_checks wd b' rest)"

text \<open>
  The whole function: when the session cannot be set up, the outer handler
  replaces the results by one failed entry per check. (\<^verbatim>\<open>driver.quit()\<close> in
  the \<^verbatim>\<open>finally\<close> clause swallows its own errors and does not touch the
  results.)
\<close>

definition run_selenium_checks ::
  "('b, 'e) webdriver \<Rightarrow> string \<Rightarrow> string list \<Rightarrow> check_result list" where
  "run_selenium_checks wd pages_url checks =
     (case wd_open wd pages_url of
        Inr b \<Rightarrow> run_checks wd b checks
      | Inl e \<Rightarrow>
          map (\<lambda>c. \<lparr>check = c, passed = False, details = ''Selenium error: '' @ e\<rparr>) checks)"

section \<open>The data model of main.py\<close>

text \<open>
  The pydantic models become records. A field name that two models share
  (\<^verbatim>\<open>email\<close>, \<^verbatim>\<open>task\<close>, \<^verbatim>\<open>round\<close>, \<^verbatim>\<open>nonce\<close>) carries a
  prefix: \<open>rq_\<close> for \<^verbatim>\<open>TaskRequest\<close>, \<open>sb_\<close> for
  \<^verbatim>\<open>StudentSubmission\<close>, \<open>td_\<close> for an entry of \<^verbatim>\<open>TEST_CASES\<close>.
  \<^verbatim>\<open>datetime.now()\<close> is a parameter of the function that calls it.
\<close>

type_synonym datetime = nat

record attachment =
  filename :: string
  content :: string

record task_request =
  rq_email :: string
  rq_secret :: string
  rq_task :: string
  rq_round :: int
  rq_nonce :: string
  rq_brief :: string
  rq_checks :: "string list"
  rq_evaluation_url :: string
  rq_attachments :: "attachment list"

record student_submission =
  sb_email :: string
  sb_task :: string
  sb_round :: int
  sb_nonce :: string
  sb_repo_url :: string
  sb_commit_sha :: string
  sb_pages_url :: string

record evaluation_result =
  status :: string
  submitted_at :: "datetime option"
  submission_data :: "student_submission option"
  evaluation_completed_at :: "datetime option"
  check_results :: "check_result list"

text \<open>\<^verbatim>\<open>EvaluationResult()\<close>: the defaults of the model.\<close>

definition EvaluationResult :: evaluation_result where
  "EvaluationResult =
     \<lparr>status = ''pending'', submitted_at = None, submission_data = None,
      evaluation_completed_at = None, check_results = []\<rparr>"

text \<open>A value of \<^verbatim>\<open>DB\<close>, and \<^verbatim>\<open>DB\<close> itself.\<close>

record task_entry =
  request :: task_request
  sent_at :: datetime
  student_response_code :: "int option"
  student_response_body :: "string option"
  evaluation :: evaluation_result

type_synonym db = "string \<rightharpoonup> task_entry"

text \<open>
  \<^verbatim>\<open>SETTINGS\<close> after start-up, which refuses to start unless the
  endpoint and the secret are set.
\<close>

record settings =
  EVALUATION_URL :: string
  STUDENT_API_ENDPOINT :: string
  SHARED_SECRET :: string

text \<open>
  What a handler raises: \<^verbatim>\<open>HTTPException(status_code, detail)\<close>, or the
  \<^verbatim>\<open>KeyError\<close> of \<^verbatim>\<open>DB[task_id]\<close> on a missing key.
\<close>

datatype failure = HTTPException int string | KeyError string

text \<open>The dictionary a handler returns, as its items in order.\<close>

type_synonym reply = "(string \<times> string) list"

subsection \<open>TEST_CASES\<close>

record test_data =
  td_task :: string
  td_nonce :: string
  td_brief :: string
  td_checks :: "string list"
  td_attachments :: "attachment list"

definition sales_csv :: attachment where
  "sales_csv =
     \<lparr>filename = ''sales.csv'',
      content = ''data:text/csv;base64,cHJvZHVjdCxzYWxlcwpBcHAyMCwxNTAuNTAKQmFuYW5hLDIwMC4yNQpDaGVycnksMzAw''\<rparr>"

definition sales_report_1 :: test_data where
  "sales_report_1 =
     \<lparr>td_task = ''sales-report-a8b3d'',
      td_nonce = ''nonce-1a2b-3c4d'',
      td_brief = ''Create a single-page site that processes an attached CSV file named 'sales.csv'. Calculate the sum of the 'sales' column and display the total inside an HTML element with the id '#total-sales'. The page title must be 'Sales Summary'.'',
      td_checks =
        [''Page title is '' @ quoted ''Sales Summary'',
         ''Page contains an element with id '' @ quoted ''#total-sales'',
         ''The text content of '#total-sales' is '' @ quoted ''650.75''],
      td_attachments = [sales_csv]\<rparr>"

definition sales_report_2 :: test_data where
  "sales_report_2 =
     \<lparr>td_task = ''sales-report-a8b3d'',
      td_nonce = ''nonce-5e6f-7g8h'',
      td_brief = ''Update the sales report. Add a table with the id '#sales-table' that displays each product and its corresponding sale amount from 'sales.csv'. The table should have a header row (Product, Sales). The '#total-sales' element must remain correct.'',
      td_checks =
        [''Page contains a table with id '' @ quoted ''#sales-table'',
         ''Table has at least 3 data rows'',
         ''The text content of '#total-sales' remains '' @ quoted ''650.75''],
      td_attachments = [sales_csv]\<rparr>"

definition github_user_info_1 :: test_data where
  "github_user_info_1 =
     \<lparr>td_task = ''github-user-info-c7e4f'',
      td_nonce = ''nonce-i9j0-k1l2'',
      td_brief = ''Create a page with an input field ('#username-input') and a button ('#fetch-btn'). When the button is clicked, fetch user data from 'https://api.github.com/users/{username}' and display the 'created_at' date in an element with id '#creation-date'.'',
      td_checks =
        [''Page has an input with id '#username-input' and a button with id ''
           @ quoted ''#fetch-btn'',
         ''After entering 'octocat' and clicking the button, '#creation-date' contains ''
           @ quoted ''2011-01-25''],
      td_attachments = []\<rparr>"

definition github_user_info_2 :: test_data where
  "github_user_info_2 =
     \<lparr>td_task = ''github-user-info-c7e4f'',
      td_nonce = ''nonce-m3n4-o5p6'',
      td_brief = ''Update the GitHub user page. Add a status element with id '#api-status'. It should display 'Loading...' during the API fetch. If the fetch is successful, it should be empty. If the fetch fails (e.g., for a non-existent user), it should display 'User not found'.'',
      td_checks =
        [''When fetching user 'octocat', '#api-status' shows 'Loading...' and then becomes empty.'',
         ''When fetching a user that does not exist like 'nonexistentuser123456789', '#api-status' displays 'User not found'.''],
      td_attachments = []\<rparr>"

definition TEST_CASES :: "(string \<times> (int \<times> test_data) list) list" where
  "TEST_CASES =
     [(''sales-report'', [(1, sales_report_1), (2, sales_report_2)]),
      (''github-user-info'', [(1, github_user_info_1), (2, github_user_info_2)])]"

text \<open>
  \<^verbatim>\<open>TEST_CASES[test_case_id][round_id]\<close>, \<open>None\<close> when
  \<^verbatim>\<open>test_case_id not in TEST_CASES or round_id not in TEST_CASES[test_case_id]\<close>.
\<close>

definition find_test_data :: "string \<Rightarrow> int \<Rightarrow> test_data option" where
  "find_test_data test_case_id round_id =
     (case map_of TEST_CASES test_case_id of
        None \<Rightarrow> None
      | Some rounds \<Rightarrow> map_of rounds round_id)"

section \<open>The endpoints of main.py\<close>

subsection \<open>start_test\<close>

text \<open>
  The handler has two parts, before and after \<^verbatim>\<open>await client.post(...)\<close>.
  \<open>store_task\<close> is the part before: it looks the fixture up, builds the
  payload and writes \<^verbatim>\<open>DB[task_id]\<close>. Its result holds the task id, the
  payload that is posted, and the registry as it is when the request goes out.
\<close>

definition build_request :: "settings \<Rightarrow> int \<Rightarrow> test_data \<Rightarrow> task_request" where
  "build_request settings round_id td =
     \<lparr>rq_email = ''student@example.com'',
      rq_secret = SHARED_SECRET settings,
      rq_task = td_task td,
      rq_round = round_id,
      rq_nonce = td_nonce td,
      rq_brief = td_brief td,
      rq_checks = td_checks td,
      rq_evaluation_url = EVALUATION_URL settings,
      rq_attachments = td_attachments td\<rparr>"

definition new_entry :: "task_request \<Rightarrow> datetime \<Rightarrow> task_entry" where
  "new_entry payload now =
     \<lparr>request = payload, sent_at = now, student_response_code = None,
      student_response_body = None, evaluation = EvaluationResult\<rparr>"

record dispatch =
  dp_task_id :: string
  dp_payload :: task_request
  dp_db :: db

definition store_task ::
  "settings \<Rightarrow> string \<Rightarrow> int \<Rightarrow> datetime \<Rightarrow> db \<Rightarrow> failure + dispatch" where
  "store_task settings test_case_id round_id now DB =
     (case find_test_data test_case_id round_id of
        None \<Rightarrow> Inl (HTTPException 404 ''Test case or round not found.'')
      | Some td \<Rightarrow>
          let task_id = td_task td;
              payload = build_request settings round_id td
          in Inr \<lparr>dp_task_id = task_id, dp_payload = payload,
                  dp_db = DB(task_id \<mapsto> new_entry payload now)\<rparr>)"

text \<open>
  What \<^verbatim>\<open>client.post\<close> does: a response with its status code and text, or
  an \<^verbatim>\<open>httpx.RequestError\<close> with its message.
\<close>

datatype post_outcome = Response int string | RequestError string

text \<open>\<^verbatim>\<open>DB[task_id][...] = ...\<close>: an update in place of an entry that must exist.\<close>

definition update_entry :: "string \<Rightarrow> (task_entry \<Rightarrow> task_entry) \<Rightarrow> db \<Rightarrow> failure + db" where
  "update_entry task_id f DB =
     (case DB task_id of
        None \<Rightarrow> Inl (KeyError task_id)
      | Some e \<Rightarrow> Inr (DB(task_id \<mapsto> f e)))"

definition set_status :: "string \<Rightarrow> task_entry \<Rightarrow> task_entry" where
  "set_status s e = e\<lparr>evaluation := (evaluation e)\<lparr>status := s\<rparr>\<rparr>"

text \<open>The part after the call: the registry and what the handler returns or raises.\<close>

definition after_post :: "string \<Rightarrow> post_outcome \<Rightarrow> db \<Rightarrow> db \<times> (failure + reply)" where
  "after_post task_id outcome DB =
     (case outcome of
        Response code body \<Rightarrow>
          (case update_entry task_id
                  (\<lambda>e. e\<lparr>student_response_code := Some code,
                          student_response_body := Some body\<rparr>) DB of
             Inl err \<Rightarrow> (DB, Inl err)
           | Inr DB1 \<Rightarrow>
               if code \<noteq> 200 then
                 (case update_entry task_id (set_status ''failed_to_send'') DB1 of
                    Inl err \<Rightarrow> (DB1, Inl err)
                  | Inr DB2 \<Rightarrow>
                      (DB2, Inr [(''status'', ''error''),
                                 (''detail'', ''Student API returned '' @ str_int code),
                                 (''response'', body)]))
               else (DB1, Inr [(''status'', ''sent''), (''task_id'', task_id)]))
      | RequestError msg \<Rightarrow>
          (case update_entry task_id (set_status ''failed_to_send'') DB of
             Inl err \<Rightarrow> (DB, Inl err)
           | Inr DB1 \<Rightarrow>
               (DB1, Inl (HTTPException 500 (''Could not connect to student API: '' @ msg)))))"

definition start_test ::
  "settings \<Rightarrow> string \<Rightarrow> int \<Rightarrow> datetime \<Rightarrow> post_outcome \<Rightarrow> db \<Rightarrow> db \<times> (failure + reply)" where
  "start_test settings test_case_id round_id now outcome DB =
     (case store_task settings test_case_id round_id now DB of
        Inl err \<Rightarrow> (DB, Inl err)
      | Inr d \<Rightarrow> after_post (dp_task_id d) outcome (dp_db d))"

subsection \<open>The results endpoints\<close>

definition get_all_results :: "db \<Rightarrow> db" where
  "get_all_results DB = DB"

definition get_task_result :: "db \<Rightarrow> string \<Rightarrow> failure + task_entry" where
  "get_task_result DB task_id =
     (case DB task_id of
        None \<Rightarrow> Inl (HTTPException 404 ''Task ID not found.'')
      | Some e \<Rightarrow> Inr e)"

subsection \<open>notify_endpoint and re_evaluate\<close>

text \<open>
  \<^verbatim>\<open>background_tasks.add_task(run_evaluation_checks, ...)\<close> only records the
  call; the framework runs it after the response is sent. The handlers return
  the recorded call next to their reply.
\<close>

record background_task =
  bt_pages_url :: string
  bt_checks :: "string list"
  bt_task_id :: string

definition notify_endpoint ::
  "student_submission \<Rightarrow> datetime \<Rightarrow> db \<Rightarrow> db \<times> (failure + reply \<times> background_task)" where
  "notify_endpoint submission now DB =
     (let task_id = sb_task submission in
      case DB task_id of
        None \<Rightarrow> (DB, Inl (HTTPException 404 ''Task ID not found.''))
      | Some e \<Rightarrow>
          let original_request = request e in
          if rq_nonce original_request \<noteq> sb_nonce submission
             \<or> rq_round original_request \<noteq> sb_round submission
          then (DB, Inl (HTTPException 400 ''Nonce or round mismatch.''))
          else
            (DB(task_id \<mapsto>
               e\<lparr>evaluation := (evaluation e)
                   \<lparr>status := ''evaluating'',
                    submitted_at := Some now,
                    submission_data := Some submission\<rparr>\<rparr>),
             Inr ([(''status'', ''accepted''), (''detail'', ''Evaluation has started.'')],
                  \<lparr>bt_pages_url = sb_pages_url submission,
                   bt_checks = rq_checks original_request,
                   bt_task_id = task_id\<rparr>)))"

definition re_evaluate ::
  "string \<Rightarrow> datetime \<Rightarrow> db \<Rightarrow> db \<times> (failure + reply \<times> background_task)" where
  "re_evaluate task_id now DB =
     (case DB task_id of
        None \<Rightarrow> (DB, Inl (HTTPException 404 ''Task ID not found.''))
      | Some task_entry \<Rightarrow>
          (case submission_data (evaluation task_entry) of
             None \<Rightarrow> (DB, Inl (HTTPException 400 ''No submission data available to evaluate.''))
           | Some sd \<Rightarrow>
               let pages_url = sb_pages_url sd in
               if pages_url = []
               then (DB, Inl (HTTPException 400 ''Submission does not include a pages_url.''))
               else
                 (DB(task_id \<mapsto>
                    task_entry\<lparr>evaluation := (evaluation task_entry)
                      \<lparr>status := ''re-evaluating'',
                       evaluation_completed_at := None,
                       check_results := [],
                       submitted_at := Some now\<rparr>\<rparr>),
                  Inr ([(''status'', ''accepted''), (''detail'', ''Re-evaluation started.'')],
                       \<lparr>bt_pages_url = pages_url,
                        bt_checks = rq_checks (request task_entry),
                        bt_task_id = task_id\<rparr>))))"

subsection \<open>run_evaluation_checks\<close>

text \<open>
  The runner is started as a separate process. \<open>Exited rc out err\<close> is a
  process that ended with return code \<open>rc\<close>, standard output \<open>out\<close> and
  standard error \<open>err\<close>; \<open>Raised msg\<close> is an exception of the \<^verbatim>\<open>try\<close>
  body outside the process (the temporary file, \<^verbatim>\<open>subprocess.run\<close>).

  \<^verbatim>\<open>[CheckResult(**item) for item in json.loads(process.stdout)]\<close> is the
  parameter \<open>loads\<close>: the list it builds (empty for an empty JSON list,
  object or string), \<^verbatim>\<open>json.JSONDecodeError\<close>, or another exception that
  building the list raises (a \<^verbatim>\<open>TypeError\<close> or a validation error),
  which the outer handler catches.
\<close>

datatype subprocess = Exited int string string | Raised string

datatype loaded = Loaded "check_result list" | JSONDecodeError | LoadError string

definition all_failed :: "string list \<Rightarrow> string \<Rightarrow> check_result list" where
  "all_failed checks msg = map (\<lambda>c. \<lparr>check = c, passed = False, details = msg\<rparr>) checks"

definition major_failure :: "string \<Rightarrow> string \<Rightarrow> string \<Rightarrow> string" where
  "major_failure task_id pages_url e =
     ''Major Selenium failure for task '' @ task_id @ '' at URL '' @ pages_url @ '': '' @ e"

definition evaluation_results ::
  "(string \<Rightarrow> loaded) \<Rightarrow> string \<Rightarrow> string list \<Rightarrow> string \<Rightarrow> subprocess \<Rightarrow> check_result list" where
  "evaluation_results loads pages_url checks task_id process =
     (case process of
        Exited returncode out err \<Rightarrow>
          if returncode = 0 then
            (case loads out of
               Loaded rs \<Rightarrow> rs
             | JSONDecodeError \<Rightarrow> all_failed checks ''Failed to parse results''
             | LoadError e \<Rightarrow> all_failed checks (major_failure task_id pages_url e))
          else
            (let error_msg = (if err = [] then ''Unknown error in Selenium subprocess'' else err)
             in all_failed checks (''Runner error: '' @ error_msg))
      | Raised e \<Rightarrow> all_failed checks (major_failure task_id pages_url e))"

definition run_evaluation_checks ::
  "(string \<Rightarrow> loaded) \<Rightarrow> string \<Rightarrow> string list \<Rightarrow> string \<Rightarrow> subprocess \<Rightarrow> datetime
     \<Rightarrow> db \<Rightarrow> db" where
  "run_evaluation_checks loads pages_url checks task_id process now DB =
     (let results = evaluation_results loads pages_url checks task_id process in
      case DB task_id of
        None \<Rightarrow> DB
      | Some e \<Rightarrow>
          DB(task_id \<mapsto>
            e\<lparr>evaluation := (evaluation e)
                \<lparr>status := ''completed'',
                 evaluation_completed_at := Some now,
                 check_results := results\<rparr>\<rparr>))"

text \<open>The evaluation status of a task in the registry, if it is there.\<close>

definition task_status :: "db \<Rightarrow> string \<Rightarrow> string option" where
  "task_status DB task_id = map_option (\<lambda>e. status (evaluation e)) (DB task_id)"

section \<open>Sample inputs\<close>

text \<open>
  A page that satisfies the round-1 sales checks and has three table rows;
  its session state counts the driver calls made so far. Everything else on
  it times out or is missing.
\<close>

definition static_page :: "(nat, string) webdriver" where
  "static_page =
     \<lparr>wd_open = (\<lambda>url. Inr 0),
      wd_title = (\<lambda>b. (Inr ''Sales Summary'', Suc b)),
      wd_wait_visible =
        (\<lambda>t i b. (if i = ''total-sales'' then Inr i else Inl ''Message: timeout'', Suc b)),
      wd_wait_present =
        (\<lambda>t i b. (if i = ''total-sales'' then Inr i else Inl ''Message: timeout'', Suc b)),
      wd_wait_text = (\<lambda>t i s b. (Inl ''Message: timeout'', Suc b)),
      wd_wait_text_empty = (\<lambda>t i b. (Inl ''Message: timeout'', Suc b)),
      wd_text = (\<lambda>e b. (Inr (if e = ''total-sales'' then ''650.75'' else []), Suc b)),
      wd_find_elements =
        (\<lambda>sel b. (Inr (if sel = ''#sales-table tbody tr'' then [''tr'', ''tr'', ''tr'']
                         else []), Suc b)),
      wd_find_element = (\<lambda>i b. (Inl ''Message: no such element'', Suc b)),
      wd_send_keys = (\<lambda>e s b. (Inr (), Suc b)),
      wd_click = (\<lambda>e b. (Inr (), Suc b)),
      wd_clear = (\<lambda>e b. (Inr (), Suc b))\<rparr>"


definition pages_url_1 :: string where
  "pages_url_1 = ''https://student.github.io/sales-report/''"

definition settings_1 :: settings where
  "settings_1 =
     \<lparr>EVALUATION_URL = ''http://127.0.0.1:8000/notify'',
      STUDENT_API_ENDPOINT = ''http://127.0.0.1:8000/task'',
      SHARED_SECRET = ''your_secret_key_here''\<rparr>"

definition empty_db :: db where
  "empty_db = Map.empty"

text \<open>The registry after round 1 of the sales report went out and was answered with 200.\<close>

definition db_dispatched :: db where
  "db_dispatched =
     fst (start_test settings_1 ''sales-report'' 1 100 (Response 200 ''ok'') empty_db)"

text \<open>The producer's notification for that dispatch, and the registry after it.\<close>

definition submission_1 :: student_submission where
  "submission_1 =
     \<lparr>sb_email = ''student@example.com'',
      sb_task = ''sales-report-a8b3d'',
      sb_round = 1,
      sb_nonce = ''nonce-1a2b-3c4d'',
      sb_repo_url = ''https://github.com/student/sales-report'',
      sb_commit_sha = ''abc123'',
      sb_pages_url = pages_url_1\<rparr>"

definition db_evaluating :: db where
  "db_evaluating = fst (notify_endpoint submission_1 200 db_dispatched)"

text \<open>
  The results of the round-1 checks on the sample page, and the line that
  \<^verbatim>\<open>print(json.dumps(results))\<close> writes for them. The reader is
  \<^verbatim>\<open>json.loads\<close> with the \<^verbatim>\<open>CheckResult\<close> comprehension on the outputs
  the samples use: the runner's line gives its three results, an empty JSON
  list or object gives no result at all, and any other text is taken as text
  that is not JSON (the samples use it on a traceback line only).
\<close>

definition sample_results :: "check_result list" where
  "sample_results =
     [\<lparr>check = ''Page title is '' @ quoted ''Sales Summary'', passed = True,
       details = ''Page title is correctly 'Sales Summary'.''\<rparr>,
      \<lparr>check = ''Page contains an element with id '' @ quoted ''#total-sales'', passed = True,
       details = ''Element with id '#total-sales' is visible.''\<rparr>,
      \<lparr>check = ''The text content of '#total-sales' is '' @ quoted ''650.75'', passed = True,
       details = ''Element 'total-sales' has correct text: '650.75'.''\<rparr>]"

definition runner_stdout :: string where
  \<open>runner_stdout =
     ''[{"check": "Page title is 'Sales Summary'", "passed": true, "details": "Page title is correctly 'Sales Summary'."}, {"check": "Page contains an element with id '#total-sales'", "passed": true, "details": "Element with id '#total-sales' is visible."}, {"check": "The text content of '#total-sales' is '650.75'", "passed": true, "details": "Element 'total-sales' has correct text: '650.75'."}]''
     @ [CHR 0x0A]\<close>

definition sample_loads :: "string \<Rightarrow> loaded" where
  "sample_loads out =
     (if out = runner_stdout then Loaded sample_results
      else if out = ''[]'' \<or> out = ''{}'' then Loaded []
      else JSONDecodeError)"

text \<open>The check results of a task in the registry, if it is there.\<close>

definition task_check_results :: "db \<Rightarrow> string \<Rightarrow> check_result list option" where
  "task_check_results DB task_id = map_option (\<lambda>e. check_results (evaluation e)) (DB task_id)"

text \<open>The registry after the sample runner's results for round 1 were stored.\<close>

definition db_completed :: db where
  "db_completed =
     run_evaluation_checks sample_loads pages_url_1 (td_checks sales_report_1)
       ''sales-report-a8b3d'' (Exited 0 runner_stdout []) 300 db_evaluating"

text \<open>A notification with the nonce of another dispatch, and one with no page address.\<close>

definition submission_wrong_nonce :: student_submission where
  "submission_wrong_nonce = submission_1\<lparr>sb_nonce := ''nonce-5e6f-7g8h''\<rparr>"

definition submission_no_url :: student_submission where
  "submission_no_url = submission_1\<lparr>sb_pages_url := []\<rparr>"

definition db_no_url :: db where
  "db_no_url = fst (notify_endpoint submission_no_url 200 db_dispatched)"

text \<open>
  The evaluation status the registry holds for the dispatched task at the
  moment the request to the producer goes out.
\<close>

definition status_at_post :: "settings \<Rightarrow> string \<Rightarrow> int \<Rightarrow> datetime \<Rightarrow> db \<Rightarrow> string option" where
  "status_at_post settings test_case_id round_id now DB =
     (case store_task settings test_case_id round_id now DB of
        Inl err \<Rightarrow> None
      | Inr d \<Rightarrow> task_status (dp_db d) (dp_task_id d))"

text \<open>A raised \<^verbatim>\<open>HTTPException\<close> with a 4xx status code.\<close>

definition client_error :: "failure \<Rightarrow> bool" where
  "client_error f =
     (case f of HTTPException code d \<Rightarrow> 400 \<le> code \<and> code < 500 | KeyError k \<Rightarrow> False)"

section \<open>Properties of the string operations and of the check loop\<close>

lemma startswith_iff: "startswith s p \<longleftrightarrow> (\<exists>r. s = p @ r)"
  by (induction s p rule: startswith.induct) auto

lemma split_on_nonempty: "split_on sep s \<noteq> []"
  by (induction s) (auto split: list.split)

lemma split_on_no_sep: "sep \<notin> set xs \<Longrightarrow> split_on sep xs = [xs]"
  by (induction xs) auto

lemma split_on_append:
  "sep \<notin> set xs \<Longrightarrow> split_on sep (xs @ sep # ys) = xs # split_on sep ys"
  by (induction xs) auto

lemma of_char_digit_char: "d < 10 \<Longrightarrow> (of_char (digit_char d) :: nat) = 48 + d"
  by (simp add: digit_char_def)

lemma is_digit_digit_char: "d < 10 \<Longrightarrow> is_digit (digit_char d)"
  by (simp add: is_digit_def of_char_digit_char)

lemma digit_val_digit_char: "d < 10 \<Longrightarrow> digit_val (digit_char d) = d"
  by (simp add: digit_val_def of_char_digit_char)

lemma str_nat_digits: "c \<in> set (str_nat n) \<Longrightarrow> is_digit c"
proof (induction n rule: str_nat.induct)
  case (1 n)
  show ?case
  proof (cases "n < 10")
    case True
    with "1.prems" show ?thesis by (simp add: is_digit_digit_char str_nat.simps [of n])
  next
    case False
    with "1.prems" have "c \<in> set (str_nat (n div 10)) \<or> c = digit_char (n mod 10)"
      by (auto simp: str_nat.simps [of n])
    with "1.IH" False show ?thesis by (auto simp: is_digit_digit_char)
  qed
qed

lemma str_nat_nonempty: "str_nat n \<noteq> []"
  by (simp add: str_nat.simps [of n])

lemma title_not_element:
  "startswith d ''Page contains an element with id'' \<Longrightarrow> \<not> startswith d ''Page title is''"
  by (auto simp: startswith_iff)

lemma select_element_iff:
  "select_branch d = ElementExistence \<longleftrightarrow> startswith d ''Page contains an element with id''"
  using title_not_element [of d] by (simp add: select_branch_def)

lemma dec_val_str_nat: "foldl (\<lambda>a c. a * 10 + digit_val c) 0 (str_nat n) = n"
proof (induction n rule: str_nat.induct)
  case (1 n)
  show ?case
  proof (cases "n < 10")
    case True
    then show ?thesis by (simp add: str_nat.simps [of n] digit_val_digit_char)
  next
    case False
    with "1.IH" show ?thesis by (simp add: str_nat.simps [of n] digit_val_digit_char)
  qed
qed

lemma digits_from_all:
  "(\<And>c. c \<in> set ds \<Longrightarrow> is_digit c) \<Longrightarrow>
   digits_from acc ds = Some (foldl (\<lambda>a c. a * 10 + digit_val c) acc ds)"
  by (induction acc ds rule: digits_from.induct) auto


lemma digit_not_special:
  "is_digit c \<Longrightarrow> c \<notin> set whitespace \<and> c \<noteq> CHR ''-'' \<and> c \<noteq> CHR ''+'' \<and> c \<noteq> CHR '' ''"
  by (auto simp: is_digit_def whitespace_def)

lemma lstrip_id: "(\<And>c. c \<in> set s \<Longrightarrow> c \<notin> set chars) \<Longrightarrow> lstrip chars s = s"
  by (cases s) (simp_all add: lstrip_def)

lemma strip_id:
  assumes "\<And>c. c \<in> set s \<Longrightarrow> c \<notin> set chars"
  shows "strip chars s = s"
proof -
  have "lstrip chars s = s" using assms by (rule lstrip_id)
  moreover have "lstrip chars (rev s) = rev s" using assms by (intro lstrip_id) simp
  ultimately show ?thesis by (simp add: strip_def)
qed

lemma py_int_str_nat: "py_int (str_nat n) = Some (int n)"
proof -
  have dig: "\<And>c. c \<in> set (str_nat n) \<Longrightarrow> is_digit c" by (rule str_nat_digits)
  then have st: "strip whitespace (str_nat n) = str_nat n"
    by (intro strip_id) (simp add: digit_not_special)
  obtain c cs where ccs: "str_nat n = c # cs"
    using str_nat_nonempty [of n] by (cases "str_nat n") auto
  have c: "is_digit c" using dig ccs by simp
  have "digits_from (digit_val c) cs = Some (foldl (\<lambda>a c. a * 10 + digit_val c) (digit_val c) cs)"
    using dig ccs by (intro digits_from_all) simp
  also have "foldl (\<lambda>a c. a * 10 + digit_val c) (digit_val c) cs = n"
    using dec_val_str_nat [of n] ccs by simp
  finally have "parse_digits (c # cs) = Some n" using c by (simp add: parse_digits_def)
  then show ?thesis using st ccs c digit_not_special [of c] by (simp add: py_int_def)
qed

lemma table_token:
  "split_on (CHR '' '') (''Table has at least '' @ str_nat n @ '' '' @ rest)
     = [''Table'', ''has'', ''at'', ''least'', str_nat n] @ split_on (CHR '' '') rest"
proof -
  have "CHR '' '' \<notin> set (str_nat n)"
    using str_nat_digits [of "CHR '' ''" n] digit_not_special [of "CHR '' ''"] by blast
  then have "split_on (CHR '' '') (str_nat n @ CHR '' '' # rest) = str_nat n # split_on (CHR '' '') rest"
    by (rule split_on_append)
  then show ?thesis by simp
qed

lemma select_table:
  "select_branch (''Table has at least '' @ s) = TableRows"
  by (simp add: select_branch_def)

lemma table_rows_check_eq:
  "table_rows_check wd (''Table has at least '' @ str_nat n @ '' '' @ rest) b =
     (case wd_find_elements wd ''#sales-table tbody tr'' b of
        (Inl e, b') \<Rightarrow> (Inl e, b')
      | (Inr els, b') \<Rightarrow>
          (Inr (if n \<le> length els
                then (True, ''Table has '' @ str_int (int (length els))
                              @ '' data rows, meeting the requirement.'')
                else (False, ''Expected at least '' @ str_int (int n) @ '' rows, but found ''
                              @ str_int (int (length els)) @ ''.'')), b'))"
  unfolding table_rows_check_def table_token
  by (simp add: index_def bnd_def ret_def int_of_def py_int_str_nat split: prod.split sum.split)




lemma run_checks_nth:
  "i < length cs \<Longrightarrow> \<exists>b'. run_checks wd b cs ! i = fst (run_check wd (cs ! i) b')"
proof (induction cs arbitrary: b i)
  case Nil
  then show ?case by simp
next
  case (Cons c cs)
  obtain r b1 where rb: "run_check wd c b = (r, b1)" by (cases "run_check wd c b")
  show ?case
  proof (cases i)
    case 0
    with rb have "run_checks wd b (c # cs) ! i = fst (run_check wd ((c # cs) ! i) b)" by simp
    then show ?thesis by blast
  next
    case (Suc j)
    with Cons.prems have "j < length cs" by simp
    from Cons.IH [OF this, of b1] obtain b' where
      "run_checks wd b1 cs ! j = fst (run_check wd (cs ! j) b')" by blast
    with rb Suc have "run_checks wd b (c # cs) ! i = fst (run_check wd ((c # cs) ! i) b')" by simp
    then show ?thesis by blast
  qed
qed

lemma select_default:
  assumes "\<not> startswith d ''Page title is''"
    and "\<not> startswith d ''Page contains an element with id''"
    and "\<not> startswith d ''The text content of''"
    and "\<not> contains d ''Table has at least''"
    and "\<not> contains d (''After entering '' @ quoted ''octocat'')"
    and "\<not> contains d (''When fetching user '' @ quoted ''octocat'')"
    and "\<not> contains d ''When fetching a user that does not exist''"
  shows "select_branch d = DefaultCase"
  using assms unfolding select_branch_def by simp

lemma run_check_default:
  "select_branch d = DefaultCase \<Longrightarrow>
   run_check wd d b = (\<lparr>check = d, passed = False, details = ''Unknown check type: '' @ d\<rparr>, b)"
  by (simp add: run_check_def check_body_def default_case_def ret_def)


lemma str_nat_3: "str_nat 3 = ''3''"
  by code_simp

lemma sales_table_default:
  "select_branch (''Page contains a table with id '' @ quoted ''#sales-table'') = DefaultCase"
  by (simp add: select_branch_def quoted_def)


lemma find_sales_1: "find_test_data ''sales-report'' 1 = Some sales_report_1"
  by (simp add: find_test_data_def TEST_CASES_def)

lemma sales_1_task: "td_task sales_report_1 = ''sales-report-a8b3d''"
  by (simp add: sales_report_1_def)

lemma sales_1_nonce: "td_nonce sales_report_1 = ''nonce-1a2b-3c4d''"
  by (simp add: sales_report_1_def)

lemma db_dispatched_entry:
  "db_dispatched ''sales-report-a8b3d'' =
     Some ((new_entry (build_request settings_1 1 sales_report_1) 100)
             \<lparr>student_response_code := Some 200, student_response_body := Some ''ok''\<rparr>)"
  by (simp add: db_dispatched_def start_test_def store_task_def find_sales_1 sales_1_task
      after_post_def update_entry_def Let_def empty_db_def)






lemma run_evaluation_checks_entry:
  "DB task_id = Some entry \<Longrightarrow>
   run_evaluation_checks loads url cs task_id process now DB task_id =
     Some (entry\<lparr>evaluation := (evaluation entry)
             \<lparr>status := ''completed'', evaluation_completed_at := Some now,
              check_results := evaluation_results loads url cs task_id process\<rparr>\<rparr>)"
  by (simp add: run_evaluation_checks_def Let_def)

section \<open>The claims about the check runner\<close>

text \<open>
  C7. A description that matches none of the conditions of the chain reaches
  the default case: selecting the branch cannot fail, no driver operation is
  called (the session state is unchanged), and the result has
  \<open>passed = False\<close> and the detail \<^verbatim>\<open>Unknown check type: <description>\<close>
  with the description as it was given.
\<close>

theorem unknown_check_type:
  assumes "\<not> startswith d ''Page title is''"
    and "\<not> startswith d ''Page contains an element with id''"
    and "\<not> startswith d ''The text content of''"
    and "\<not> contains d ''Table has at least''"
    and "\<not> contains d (''After entering '' @ quoted ''octocat'')"
    and "\<not> contains d (''When fetching user '' @ quoted ''octocat'')"
    and "\<not> contains d ''When fetching a user that does not exist''"
  shows "select_branch d = DefaultCase \<and>
         run_check wd d b =
           (\<lparr>check = d, passed = False, details = ''Unknown check type: '' @ d\<rparr>, b)"
proof -
  have "select_branch d = DefaultCase" using assms by (rule select_default)
  then show ?thesis by (simp add: run_check_default)
qed

theorem unknown_check_type_witness:
  "run_check static_page
     (''Page has an input with id '#username-input' and a button with id '' @ quoted ''#fetch-btn'') 0 =
     (\<lparr>check = ''Page has an input with id '#username-input' and a button with id ''
                @ quoted ''#fetch-btn'',
       passed = False,
       details = ''Unknown check type: Page has an input with id '#username-input' and a button with id ''
                @ quoted ''#fetch-btn''\<rparr>, 0)"
  using unknown_check_type [of "''Page has an input with id '#username-input' and a button with id '' @ quoted ''#fetch-btn''" static_page 0]
  by (simp add: quoted_def)

text \<open>
  C8. A description \<^verbatim>\<open>Table has at least N ...\<close>, with \<open>N\<close> a decimal
  number followed by a space, takes the table-rows branch. The branch reads
  \<open>N\<close> from the fifth word of the description and counts the elements of
  the fixed selector \<^verbatim>\<open>#sales-table tbody tr\<close>, whatever the description
  names: the check passes exactly when the driver returns at least \<open>N\<close>
  such rows, and fails with the driver's message when the lookup raises.
\<close>

theorem table_rows_fixed_selector:
  "select_branch (''Table has at least '' @ str_nat n @ '' '' @ rest) = TableRows \<and>
   run_check wd (''Table has at least '' @ str_nat n @ '' '' @ rest) b =
     (case wd_find_elements wd ''#sales-table tbody tr'' b of
        (Inr els, b') \<Rightarrow>
          (\<lparr>check = ''Table has at least '' @ str_nat n @ '' '' @ rest,
            passed = (n \<le> length els),
            details =
              (if n \<le> length els
               then ''Table has '' @ str_int (int (length els))
                      @ '' data rows, meeting the requirement.''
               else ''Expected at least '' @ str_int (int n) @ '' rows, but found ''
                      @ str_int (int (length els)) @ ''.'')\<rparr>, b')
      | (Inl e, b') \<Rightarrow>
          (\<lparr>check = ''Table has at least '' @ str_nat n @ '' '' @ rest,
            passed = False, details = ''Check failed: '' @ e\<rparr>, b'))"
proof -
  let ?d = "''Table has at least '' @ str_nat n @ '' '' @ rest"
  have sel: "select_branch ?d = TableRows" by (rule select_table)
  have body: "check_body wd ?d b = table_rows_check wd ?d b"
    by (simp only: check_body_def sel branch.case)
  show ?thesis
    unfolding run_check_def body table_rows_check_eq
    using sel by (simp split: prod.split sum.split)
qed

theorem table_rows_fixed_selector_witness:
  "run_check static_page ''Table has at least 3 data rows'' 0 =
     (\<lparr>check = ''Table has at least 3 data rows'', passed = True,
       details = ''Table has 3 data rows, meeting the requirement.''\<rparr>, 1)"
  using table_rows_fixed_selector [of 3 "''data rows''" static_page 0]
  by (simp add: str_nat_3 static_page_def str_int_def)

text \<open>
  C9. The element branch is taken exactly by the descriptions that start with
  \<^verbatim>\<open>Page contains an element with id\<close>. The first check of round 2 of the
  sales fixture, \<^verbatim>\<open>Page contains a table with id '#sales-table'\<close>, reaches the
  default case: on every session it fails with the detail
  \<^verbatim>\<open>Unknown check type: Page contains a table with id '#sales-table'\<close>, and in
  a run of any list of checks on any page its result never has
  \<open>passed = True\<close>.
\<close>

theorem sales_table_check_unknown:
  "(select_branch d = ElementExistence \<longleftrightarrow> startswith d ''Page contains an element with id'')
   \<and> td_checks sales_report_2 ! 0 = ''Page contains a table with id '' @ quoted ''#sales-table''
   \<and> select_branch (''Page contains a table with id '' @ quoted ''#sales-table'') = DefaultCase
   \<and> run_check wd (''Page contains a table with id '' @ quoted ''#sales-table'') b =
        (\<lparr>check = ''Page contains a table with id '' @ quoted ''#sales-table'',
          passed = False,
          details = ''Unknown check type: Page contains a table with id ''
                      @ quoted ''#sales-table''\<rparr>, b)
   \<and> (i < length cs \<and> cs ! i = ''Page contains a table with id '' @ quoted ''#sales-table''
        \<longrightarrow> \<not> passed (run_selenium_checks wd url cs ! i))"
proof -
  let ?d = "''Page contains a table with id '' @ quoted ''#sales-table''"
  have one: "run_check wd ?d b' =
      (\<lparr>check = ?d, passed = False, details = ''Unknown check type: '' @ ?d\<rparr>, b')" for b'
    using sales_table_default by (rule run_check_default)
  have never: "\<not> passed (run_selenium_checks wd url cs ! i)"
    if i: "i < length cs" and ci: "cs ! i = ?d"
  proof (cases "wd_open wd url")
    case (Inl e)
    with i show ?thesis by (simp add: run_selenium_checks_def)
  next
    case (Inr b0)
    from run_checks_nth [OF i, of wd b0] obtain b' where
      "run_checks wd b0 cs ! i = fst (run_check wd (cs ! i) b')" by blast
    with ci one [of b'] Inr show ?thesis by (simp add: run_selenium_checks_def)
  qed
  have fixture: "td_checks sales_report_2 ! 0 = ?d" by (simp add: sales_report_2_def)
  from select_element_iff [of d] fixture sales_table_default one [of b] never
  show ?thesis by simp
qed

theorem sales_table_check_unknown_witness:
  "\<not> passed (run_selenium_checks static_page pages_url_1 (td_checks sales_report_2) ! 0)
   \<and> details (run_selenium_checks static_page pages_url_1 (td_checks sales_report_2) ! 0)
       = ''Unknown check type: Page contains a table with id '' @ quoted ''#sales-table''"
proof -
  have len: "0 < length (td_checks sales_report_2)" by (simp add: sales_report_2_def)
  have hd: "td_checks sales_report_2 ! 0 = ''Page contains a table with id '' @ quoted ''#sales-table''"
    by (simp add: sales_report_2_def)
  have "\<not> passed (run_selenium_checks static_page pages_url_1 (td_checks sales_report_2) ! 0)"
    using sales_table_check_unknown [of "[]" static_page 0 0 "td_checks sales_report_2" pages_url_1] len hd
    by blast
  moreover have "details (run_selenium_checks static_page pages_url_1 (td_checks sales_report_2) ! 0)
       = ''Unknown check type: Page contains a table with id '' @ quoted ''#sales-table''"
    using sales_table_check_unknown [of "[]" static_page 0 0 "td_checks sales_report_2" pages_url_1]
    by (simp add: run_selenium_checks_def static_page_def sales_report_2_def)
  ultimately show ?thesis by simp
qed



section \<open>Properties of the endpoints\<close>

lemma store_task_known:
  "find_test_data tc r = Some td \<Longrightarrow>
   store_task s tc r now DB =
     Inr \<lparr>dp_task_id = td_task td, dp_payload = build_request s r td,
          dp_db = DB(td_task td \<mapsto> new_entry (build_request s r td) now)\<rparr>"
  by (simp add: store_task_def Let_def)

lemma after_post_response:
  "DB tid = Some e \<Longrightarrow>
   after_post tid (Response code body) DB =
     (if code \<noteq> 200
      then (DB(tid \<mapsto> set_status ''failed_to_send''
                 (e\<lparr>student_response_code := Some code, student_response_body := Some body\<rparr>)),
            Inr [(''status'', ''error''),
                 (''detail'', ''Student API returned '' @ str_int code),
                 (''response'', body)])
      else (DB(tid \<mapsto> e\<lparr>student_response_code := Some code, student_response_body := Some body\<rparr>),
            Inr [(''status'', ''sent''), (''task_id'', tid)]))"
  by (simp add: after_post_def update_entry_def)

lemma after_post_error:
  "DB tid = Some e \<Longrightarrow>
   after_post tid (RequestError msg) DB =
     (DB(tid \<mapsto> set_status ''failed_to_send'' e),
      Inl (HTTPException 500 (''Could not connect to student API: '' @ msg)))"
  by (simp add: after_post_def update_entry_def)

lemma start_test_known:
  "find_test_data tc r = Some td \<Longrightarrow>
   start_test s tc r now outcome DB =
     after_post (td_task td) outcome (DB(td_task td \<mapsto> new_entry (build_request s r td) now))"
  by (simp add: start_test_def store_task_known)

lemma after_post_entry:
  "DB tid = Some e \<Longrightarrow>
   \<exists>e'. fst (after_post tid outcome DB) tid = Some e'
        \<and> request e' = request e \<and> sent_at e' = sent_at e
        \<and> submitted_at (evaluation e') = submitted_at (evaluation e)
        \<and> submission_data (evaluation e') = submission_data (evaluation e)
        \<and> evaluation_completed_at (evaluation e') = evaluation_completed_at (evaluation e)
        \<and> check_results (evaluation e') = check_results (evaluation e)"
  by (cases outcome) (simp_all add: after_post_response after_post_error set_status_def)

lemma find_sales_2: "find_test_data ''sales-report'' 2 = Some sales_report_2"
  by (simp add: find_test_data_def TEST_CASES_def)

lemma sales_2_task: "td_task sales_report_2 = ''sales-report-a8b3d''"
  by (simp add: sales_report_2_def)

lemma status_new_entry: "status (evaluation (new_entry p now)) = ''pending''"
  by (simp add: new_entry_def EvaluationResult_def)

lemma db_completed_entry:
  "\<exists>e. db_completed ''sales-report-a8b3d'' = Some e
      \<and> status (evaluation e) = ''completed''
      \<and> length (check_results (evaluation e)) = 3
      \<and> rq_round (request e) = 1"
proof -
  obtain entry where entry: "db_evaluating ''sales-report-a8b3d'' = Some entry"
    and round: "rq_round (request entry) = 1"
    by (simp add: db_evaluating_def notify_endpoint_def submission_1_def db_dispatched_entry
        new_entry_def build_request_def sales_1_nonce Let_def)
  have "length sample_results = 3" by (simp add: sample_results_def)
  then show ?thesis
    using entry round
    by (simp add: db_completed_def run_evaluation_checks_entry [where entry = entry]
        evaluation_results_def sample_loads_def)
qed

lemma db_dispatched_request:
  "\<exists>e. db_dispatched ''sales-report-a8b3d'' = Some e
      \<and> rq_nonce (request e) = ''nonce-1a2b-3c4d'' \<and> rq_round (request e) = 1
      \<and> rq_checks (request e) = td_checks sales_report_1
      \<and> submission_data (evaluation e) = None"
  by (simp add: db_dispatched_entry new_entry_def build_request_def sales_1_nonce
      EvaluationResult_def)

lemma db_evaluating_submission:
  "\<exists>e. db_evaluating ''sales-report-a8b3d'' = Some e
      \<and> submission_data (evaluation e) = Some submission_1
      \<and> rq_checks (request e) = td_checks sales_report_1"
  by (simp add: db_evaluating_def notify_endpoint_def submission_1_def db_dispatched_entry
      new_entry_def build_request_def sales_1_nonce Let_def)

lemma db_completed_submission:
  "\<exists>e. db_completed ''sales-report-a8b3d'' = Some e
      \<and> submission_data (evaluation e) = Some submission_1
      \<and> rq_checks (request e) = td_checks sales_report_1"
proof -
  obtain e where e: "db_evaluating ''sales-report-a8b3d'' = Some e"
    and sd: "submission_data (evaluation e) = Some submission_1"
    and cs: "rq_checks (request e) = td_checks sales_report_1"
    using db_evaluating_submission by blast
  show ?thesis
    using sd cs by (simp add: db_completed_def run_evaluation_checks_entry [where entry = e] e)
qed

lemma db_no_url_submission:
  "\<exists>e. db_no_url ''sales-report-a8b3d'' = Some e
      \<and> submission_data (evaluation e) = Some submission_no_url"
  by (simp add: db_no_url_def notify_endpoint_def submission_no_url_def submission_1_def
      db_dispatched_entry new_entry_def build_request_def sales_1_nonce Let_def)




section \<open>The claims about the orchestrator\<close>

text \<open>
  C1. The claim says the record is created with status \<^verbatim>\<open>sent\<close>; the code
  stores \<^verbatim>\<open>EvaluationResult()\<close>, whose status is \<^verbatim>\<open>pending\<close>, and
  no path of the program ever writes \<^verbatim>\<open>sent\<close> into the registry (it is the
  \<^verbatim>\<open>status\<close> of the reply only). The first theorem shows it on the sales
  fixture: \<^verbatim>\<open>pending\<close> when the request goes out, and still \<^verbatim>\<open>pending\<close>
  after a 200 answer.
\<close>

theorem dispatch_status_counterexample:
  "status_at_post settings_1 ''sales-report'' 1 100 empty_db = Some ''pending''
   \<and> status_at_post settings_1 ''sales-report'' 1 100 empty_db \<noteq> Some ''sent''
   \<and> task_status
        (fst (start_test settings_1 ''sales-report'' 1 100 (Response 200 ''ok'') empty_db))
        ''sales-report-a8b3d'' = Some ''pending''"
proof -
  have "status_at_post settings_1 ''sales-report'' 1 100 empty_db = Some ''pending''"
    by (simp add: status_at_post_def store_task_known [OF find_sales_1] task_status_def
        status_new_entry)
  moreover have "task_status
        (fst (start_test settings_1 ''sales-report'' 1 100 (Response 200 ''ok'') empty_db))
        ''sales-report-a8b3d'' = Some ''pending''"
    by (simp add: start_test_known [OF find_sales_1] after_post_response sales_1_task
        task_status_def status_new_entry)
  ultimately show ?thesis by simp
qed

text \<open>
  C1, as amended. For every known fixture and round, the record is in the
  registry under the task id, with evaluation status \<^verbatim>\<open>pending\<close>, when the
  request to the producer goes out; whatever the outcome of the request, the
  record is still returned by the results endpoint afterwards, with the
  payload and the time of the dispatch.
\<close>

theorem dispatch_record_before_post:
  assumes "find_test_data tc r = Some td"
  shows "\<exists>d. store_task s tc r now DB = Inr d
      \<and> dp_task_id d = td_task td
      \<and> dp_db d (td_task td) = Some (new_entry (build_request s r td) now)
      \<and> status_at_post s tc r now DB = Some ''pending''
      \<and> start_test s tc r now outcome DB = after_post (td_task td) outcome (dp_db d)
      \<and> (\<exists>e. get_task_result (fst (start_test s tc r now outcome DB)) (td_task td) = Inr e
              \<and> request e = build_request s r td \<and> sent_at e = now)"
proof -
  let ?d = "\<lparr>dp_task_id = td_task td, dp_payload = build_request s r td,
             dp_db = DB(td_task td \<mapsto> new_entry (build_request s r td) now)\<rparr>"
  have st: "store_task s tc r now DB = Inr ?d" using assms by (rule store_task_known)
  have at: "status_at_post s tc r now DB = Some ''pending''"
    by (simp add: status_at_post_def st task_status_def status_new_entry)
  have run: "start_test s tc r now outcome DB = after_post (td_task td) outcome (dp_db ?d)"
    using start_test_known [OF assms] by simp
  have "dp_db ?d (td_task td) = Some (new_entry (build_request s r td) now)" by simp
  with after_post_entry [where DB = "dp_db ?d" and tid = "td_task td"
      and e = "new_entry (build_request s r td) now" and outcome = outcome] obtain e' where
    e': "fst (after_post (td_task td) outcome (dp_db ?d)) (td_task td) = Some e'"
      "request e' = request (new_entry (build_request s r td) now)"
      "sent_at e' = sent_at (new_entry (build_request s r td) now)"
    by blast
  have q: "\<exists>e. get_task_result (fst (start_test s tc r now outcome DB)) (td_task td) = Inr e
              \<and> request e = build_request s r td \<and> sent_at e = now"
    using e' run by (simp add: get_task_result_def new_entry_def)
  show ?thesis
    by (rule exI [of _ ?d]) (use st at run q in simp)
qed

theorem dispatch_record_before_post_witness:
  "\<exists>d. store_task settings_1 ''sales-report'' 1 100 empty_db = Inr d
      \<and> dp_task_id d = ''sales-report-a8b3d''
      \<and> dp_db d ''sales-report-a8b3d''
           = Some (new_entry (build_request settings_1 1 sales_report_1) 100)
      \<and> status_at_post settings_1 ''sales-report'' 1 100 empty_db = Some ''pending''
      \<and> start_test settings_1 ''sales-report'' 1 100 (RequestError ''timed out'') empty_db
           = after_post ''sales-report-a8b3d'' (RequestError ''timed out'') (dp_db d)
      \<and> (\<exists>e. get_task_result
                 (fst (start_test settings_1 ''sales-report'' 1 100 (RequestError ''timed out'')
                         empty_db)) ''sales-report-a8b3d'' = Inr e
              \<and> request e = build_request settings_1 1 sales_report_1 \<and> sent_at e = 100)"
  using dispatch_record_before_post [OF find_sales_1, of settings_1 100 empty_db
      "RequestError ''timed out''"]
  by (simp only: sales_1_task)

text \<open>
  C6. For every known fixture and round: an answer with a status code outside
  200..299 sets the evaluation status to \<^verbatim>\<open>failed_to_send\<close> and is returned
  to the caller as an error reply; a transport error sets the same status and
  raises \<^verbatim>\<open>HTTPException(500)\<close>. The handler raises only on a transport
  error, and after every outcome both results endpoints return the record.
\<close>

theorem dispatch_failure_recorded:
  assumes "find_test_data tc r = Some td"
  shows "(\<not> (200 \<le> code \<and> code < 300) \<longrightarrow>
           task_status (fst (start_test s tc r now (Response code body) DB)) (td_task td)
             = Some ''failed_to_send''
         \<and> snd (start_test s tc r now (Response code body) DB)
             = Inr [(''status'', ''error''),
                    (''detail'', ''Student API returned '' @ str_int code),
                    (''response'', body)])
     \<and> task_status (fst (start_test s tc r now (RequestError msg) DB)) (td_task td)
           = Some ''failed_to_send''
     \<and> snd (start_test s tc r now (RequestError msg) DB)
           = Inl (HTTPException 500 (''Could not connect to student API: '' @ msg))
     \<and> ((\<exists>f. snd (start_test s tc r now outcome DB) = Inl f)
           \<longleftrightarrow> (\<exists>m. outcome = RequestError m))
     \<and> (\<exists>e. get_task_result (fst (start_test s tc r now outcome DB)) (td_task td) = Inr e
            \<and> get_all_results (fst (start_test s tc r now outcome DB)) (td_task td) = Some e
            \<and> request e = build_request s r td)"
proof -
  let ?DB1 = "DB(td_task td \<mapsto> new_entry (build_request s r td) now)"
  have run: "start_test s tc r now oc DB = after_post (td_task td) oc ?DB1" for oc
    using assms by (rule start_test_known)
  have stored: "?DB1 (td_task td) = Some (new_entry (build_request s r td) now)" by simp
  have resp: "task_status (fst (start_test s tc r now (Response code body) DB)) (td_task td)
             = Some ''failed_to_send''
         \<and> snd (start_test s tc r now (Response code body) DB)
             = Inr [(''status'', ''error''),
                    (''detail'', ''Student API returned '' @ str_int code),
                    (''response'', body)]"
    if "\<not> (200 \<le> code \<and> code < 300)"
  proof -
    from that have "code \<noteq> 200" by auto
    then show ?thesis
      by (simp add: run after_post_response task_status_def set_status_def)
  qed
  have err: "task_status (fst (start_test s tc r now (RequestError msg) DB)) (td_task td)
           = Some ''failed_to_send''
     \<and> snd (start_test s tc r now (RequestError msg) DB)
           = Inl (HTTPException 500 (''Could not connect to student API: '' @ msg))"
    by (simp add: run after_post_error task_status_def set_status_def)
  have raised: "(\<exists>f. snd (start_test s tc r now outcome DB) = Inl f)
           \<longleftrightarrow> (\<exists>m. outcome = RequestError m)"
    by (cases outcome)
      (simp_all add: run after_post_response after_post_error)
  from after_post_entry [where DB = ?DB1 and tid = "td_task td"
      and e = "new_entry (build_request s r td) now" and outcome = outcome] stored
  obtain e' where
    e': "fst (after_post (td_task td) outcome ?DB1) (td_task td) = Some e'"
      "request e' = request (new_entry (build_request s r td) now)"
    by blast
  then have q: "\<exists>e. get_task_result (fst (start_test s tc r now outcome DB)) (td_task td) = Inr e
            \<and> get_all_results (fst (start_test s tc r now outcome DB)) (td_task td) = Some e
            \<and> request e = build_request s r td"
    by (simp add: run get_task_result_def get_all_results_def new_entry_def)
  from resp err raised q show ?thesis by (intro conjI impI) simp_all
qed

theorem dispatch_failure_recorded_witness:
  "task_status
     (fst (start_test settings_1 ''sales-report'' 1 100 (Response 503 ''unavailable'') empty_db))
     ''sales-report-a8b3d'' = Some ''failed_to_send''
   \<and> snd (start_test settings_1 ''sales-report'' 1 100 (Response 503 ''unavailable'') empty_db)
       = Inr [(''status'', ''error''),
              (''detail'', ''Student API returned '' @ str_int 503),
              (''response'', ''unavailable'')]
   \<and> task_status
        (fst (start_test settings_1 ''sales-report'' 1 100 (RequestError ''timed out'') empty_db))
        ''sales-report-a8b3d'' = Some ''failed_to_send''
   \<and> snd (start_test settings_1 ''sales-report'' 1 100 (RequestError ''timed out'') empty_db)
       = Inl (HTTPException 500 ''Could not connect to student API: timed out'')"
proof -
  note w = dispatch_failure_recorded [OF find_sales_1, where code = 503 and s = settings_1
      and now = 100 and DB = empty_db and body = "''unavailable''" and msg = "''timed out''"
      and outcome = "RequestError ''timed out''"]
  have c: "\<not> (200 \<le> (503::int) \<and> (503::int) < 300)" by simp
  from w [THEN conjunct1, THEN mp, OF c] w [THEN conjunct2, THEN conjunct1]
    w [THEN conjunct2, THEN conjunct2, THEN conjunct1]
  show ?thesis by (simp add: sales_1_task)
qed

text \<open>
  C10. A dispatch of a known fixture and round overwrites \<^verbatim>\<open>DB[task_id]\<close>
  with a new record: no response yet, evaluation status \<^verbatim>\<open>pending\<close>, no
  submission, no check results. Both rounds of each fixture have the same task
  id. So the record under that id after the handler returns does not depend on
  what the registry held before: it carries the payload of the round just
  dispatched and no check results.
\<close>

theorem dispatch_replaces_entry:
  assumes "find_test_data tc r = Some td"
  shows "store_task s tc r now DB =
           Inr \<lparr>dp_task_id = td_task td, dp_payload = build_request s r td,
                dp_db = DB(td_task td \<mapsto>
                  \<lparr>request = build_request s r td, sent_at = now,
                   student_response_code = None, student_response_body = None,
                   evaluation = \<lparr>status = ''pending'', submitted_at = None,
                     submission_data = None, evaluation_completed_at = None,
                     check_results = []\<rparr>\<rparr>)\<rparr>
     \<and> td_task sales_report_1 = td_task sales_report_2
     \<and> td_task github_user_info_1 = td_task github_user_info_2
     \<and> fst (start_test s tc r now outcome DB) (td_task td)
         = fst (start_test s tc r now outcome DB') (td_task td)
     \<and> (\<exists>e. fst (start_test s tc r now outcome DB) (td_task td) = Some e
            \<and> request e = build_request s r td
            \<and> rq_round (request e) = r
            \<and> check_results (evaluation e) = []
            \<and> submission_data (evaluation e) = None
            \<and> evaluation_completed_at (evaluation e) = None
            \<and> (status (evaluation e) = ''pending''
                 \<or> status (evaluation e) = ''failed_to_send''))"
proof -
  have st: "store_task s tc r now DB =
           Inr \<lparr>dp_task_id = td_task td, dp_payload = build_request s r td,
                dp_db = DB(td_task td \<mapsto>
                  \<lparr>request = build_request s r td, sent_at = now,
                   student_response_code = None, student_response_body = None,
                   evaluation = \<lparr>status = ''pending'', submitted_at = None,
                     submission_data = None, evaluation_completed_at = None,
                     check_results = []\<rparr>\<rparr>)\<rparr>"
    using store_task_known [OF assms] by (simp add: new_entry_def EvaluationResult_def)
  have ids: "td_task sales_report_1 = td_task sales_report_2
     \<and> td_task github_user_info_1 = td_task github_user_info_2"
    by (simp add: sales_1_task sales_2_task github_user_info_1_def github_user_info_2_def)
  have run: "start_test s tc r now oc D = after_post (td_task td) oc
      (D(td_task td \<mapsto> new_entry (build_request s r td) now))" for D oc
    using assms by (rule start_test_known)
  have indep: "fst (start_test s tc r now outcome DB) (td_task td)
         = fst (start_test s tc r now outcome DB') (td_task td)"
    by (cases outcome) (simp_all add: run after_post_response after_post_error)
  have fresh: "\<exists>e. fst (start_test s tc r now outcome DB) (td_task td) = Some e
            \<and> request e = build_request s r td
            \<and> rq_round (request e) = r
            \<and> check_results (evaluation e) = []
            \<and> submission_data (evaluation e) = None
            \<and> evaluation_completed_at (evaluation e) = None
            \<and> (status (evaluation e) = ''pending''
                 \<or> status (evaluation e) = ''failed_to_send'')"
    by (cases outcome)
      (simp_all add: run after_post_response after_post_error new_entry_def
        EvaluationResult_def set_status_def build_request_def)
  from st ids indep fresh show ?thesis by (intro conjI) simp_all
qed

theorem dispatch_replaces_entry_witness:
  "(\<exists>e. db_completed ''sales-report-a8b3d'' = Some e
        \<and> status (evaluation e) = ''completed''
        \<and> length (check_results (evaluation e)) = 3
        \<and> rq_round (request e) = 1)
   \<and> (\<exists>e. fst (start_test settings_1 ''sales-report'' 2 400 (Response 200 ''ok'') db_completed)
              ''sales-report-a8b3d'' = Some e
        \<and> request e = build_request settings_1 2 sales_report_2
        \<and> rq_round (request e) = 2
        \<and> check_results (evaluation e) = []
        \<and> submission_data (evaluation e) = None
        \<and> evaluation_completed_at (evaluation e) = None
        \<and> (status (evaluation e) = ''pending''
             \<or> status (evaluation e) = ''failed_to_send''))"
proof -
  note w = dispatch_replaces_entry [OF find_sales_2, where s = settings_1 and now = 400
      and outcome = "Response 200 ''ok''" and DB = db_completed and DB' = db_completed]
  from w [THEN conjunct2, THEN conjunct2, THEN conjunct2, THEN conjunct2] db_completed_entry
  show ?thesis by (simp only: sales_2_task)
qed

text \<open>
  C3. A notification for a task id that is not in the registry is refused with
  404, and one whose nonce or round differs from the stored request with 400;
  both are raised before anything is written, so the registry is returned as
  it was. When the task is known and both fields match, the entry gets the
  status \<^verbatim>\<open>evaluating\<close>, the time of the notification and the submission;
  the handler records the call of the runner with the stored checks and the
  submitted page address and returns \<^verbatim>\<open>accepted\<close> without running it: the
  check results in the registry are those from before the call.
\<close>

theorem notification_checked:
  "(DB (sb_task sub) = None \<longrightarrow>
      notify_endpoint sub now DB = (DB, Inl (HTTPException 404 ''Task ID not found.''))
      \<and> client_error (HTTPException 404 ''Task ID not found.''))
   \<and> (DB (sb_task sub) = Some e
        \<and> (rq_nonce (request e) \<noteq> sb_nonce sub \<or> rq_round (request e) \<noteq> sb_round sub)
      \<longrightarrow> notify_endpoint sub now DB = (DB, Inl (HTTPException 400 ''Nonce or round mismatch.''))
          \<and> client_error (HTTPException 400 ''Nonce or round mismatch.''))
   \<and> (DB (sb_task sub) = Some e
        \<and> rq_nonce (request e) = sb_nonce sub \<and> rq_round (request e) = sb_round sub
      \<longrightarrow> notify_endpoint sub now DB =
            (DB(sb_task sub \<mapsto>
               e\<lparr>evaluation := (evaluation e)
                   \<lparr>status := ''evaluating'', submitted_at := Some now,
                    submission_data := Some sub\<rparr>\<rparr>),
             Inr ([(''status'', ''accepted''), (''detail'', ''Evaluation has started.'')],
                  \<lparr>bt_pages_url = sb_pages_url sub, bt_checks = rq_checks (request e),
                   bt_task_id = sb_task sub\<rparr>))
          \<and> task_status (fst (notify_endpoint sub now DB)) (sb_task sub) = Some ''evaluating''
          \<and> task_check_results (fst (notify_endpoint sub now DB)) (sb_task sub)
              = task_check_results DB (sb_task sub))"
proof -
  have unknown: "notify_endpoint sub now DB = (DB, Inl (HTTPException 404 ''Task ID not found.''))"
    if "DB (sb_task sub) = None"
    using that by (simp add: notify_endpoint_def)
  have mismatch:
    "notify_endpoint sub now DB = (DB, Inl (HTTPException 400 ''Nonce or round mismatch.''))"
    if "DB (sb_task sub) = Some e"
      and "rq_nonce (request e) \<noteq> sb_nonce sub \<or> rq_round (request e) \<noteq> sb_round sub"
    using that by (auto simp: notify_endpoint_def Let_def)
  have accepted: "notify_endpoint sub now DB =
            (DB(sb_task sub \<mapsto>
               e\<lparr>evaluation := (evaluation e)
                   \<lparr>status := ''evaluating'', submitted_at := Some now,
                    submission_data := Some sub\<rparr>\<rparr>),
             Inr ([(''status'', ''accepted''), (''detail'', ''Evaluation has started.'')],
                  \<lparr>bt_pages_url = sb_pages_url sub, bt_checks = rq_checks (request e),
                   bt_task_id = sb_task sub\<rparr>))"
    if "DB (sb_task sub) = Some e" and "rq_nonce (request e) = sb_nonce sub"
      and "rq_round (request e) = sb_round sub"
    using that by (simp add: notify_endpoint_def Let_def)
  have after: "task_status (fst (notify_endpoint sub now DB)) (sb_task sub) = Some ''evaluating''
      \<and> task_check_results (fst (notify_endpoint sub now DB)) (sb_task sub)
          = task_check_results DB (sb_task sub)"
    if "DB (sb_task sub) = Some e" and "rq_nonce (request e) = sb_nonce sub"
      and "rq_round (request e) = sb_round sub"
    using that accepted [OF that] by (simp add: task_status_def task_check_results_def)
  have c4: "client_error (HTTPException 404 ''Task ID not found.'')"
    and c0: "client_error (HTTPException 400 ''Nonce or round mismatch.'')"
    by (simp_all add: client_error_def)
  from unknown mismatch accepted after c4 c0 show ?thesis by (intro conjI impI) blast+
qed

theorem notification_checked_witness:
  "notify_endpoint submission_1 200 empty_db
     = (empty_db, Inl (HTTPException 404 ''Task ID not found.''))
   \<and> notify_endpoint submission_wrong_nonce 200 db_dispatched
     = (db_dispatched, Inl (HTTPException 400 ''Nonce or round mismatch.''))
   \<and> task_status (fst (notify_endpoint submission_1 200 db_dispatched)) ''sales-report-a8b3d''
     = Some ''evaluating''
   \<and> snd (notify_endpoint submission_1 200 db_dispatched)
     = Inr ([(''status'', ''accepted''), (''detail'', ''Evaluation has started.'')],
            \<lparr>bt_pages_url = pages_url_1, bt_checks = td_checks sales_report_1,
             bt_task_id = ''sales-report-a8b3d''\<rparr>)"
proof -
  obtain e where e: "db_dispatched ''sales-report-a8b3d'' = Some e"
    and nonce: "rq_nonce (request e) = ''nonce-1a2b-3c4d''"
    and round: "rq_round (request e) = 1"
    and checks: "rq_checks (request e) = td_checks sales_report_1"
    using db_dispatched_request by blast
  have t1: "sb_task submission_1 = ''sales-report-a8b3d''"
    and n1: "sb_nonce submission_1 = ''nonce-1a2b-3c4d''"
    and r1: "sb_round submission_1 = 1"
    and u1: "sb_pages_url submission_1 = pages_url_1"
    by (simp_all add: submission_1_def)
  have t2: "sb_task submission_wrong_nonce = ''sales-report-a8b3d''"
    and n2: "sb_nonce submission_wrong_nonce = ''nonce-5e6f-7g8h''"
    by (simp_all add: submission_wrong_nonce_def submission_1_def)
  have h1: "empty_db (sb_task submission_1) = None" by (simp add: empty_db_def)
  have h2: "db_dispatched (sb_task submission_wrong_nonce) = Some e
      \<and> (rq_nonce (request e) \<noteq> sb_nonce submission_wrong_nonce
          \<or> rq_round (request e) \<noteq> sb_round submission_wrong_nonce)"
    using e nonce by (simp add: t2 n2)
  have h3: "db_dispatched (sb_task submission_1) = Some e
      \<and> rq_nonce (request e) = sb_nonce submission_1
      \<and> rq_round (request e) = sb_round submission_1"
    using e nonce round by (simp add: t1 n1 r1)
  note w1 = notification_checked [where sub = submission_1 and now = 200 and DB = empty_db,
      THEN conjunct1, THEN mp, OF h1, THEN conjunct1]
  note w2 = notification_checked [where sub = submission_wrong_nonce and now = 200
      and DB = db_dispatched and e = e, THEN conjunct2, THEN conjunct1, THEN mp, OF h2,
      THEN conjunct1]
  note w3 = notification_checked [where sub = submission_1 and now = 200
      and DB = db_dispatched and e = e, THEN conjunct2, THEN conjunct2, THEN mp, OF h3]
  from w3 [THEN conjunct2, THEN conjunct1] have a: "task_status (fst (notify_endpoint submission_1 200 db_dispatched))
      ''sales-report-a8b3d'' = Some ''evaluating''"
    by (simp only: t1)
  from w3 [THEN conjunct1] have b: "snd (notify_endpoint submission_1 200 db_dispatched)
     = Inr ([(''status'', ''accepted''), (''detail'', ''Evaluation has started.'')],
            \<lparr>bt_pages_url = pages_url_1, bt_checks = td_checks sales_report_1,
             bt_task_id = ''sales-report-a8b3d''\<rparr>)"
    by (simp add: t1 u1 checks)
  from w1 w2 a b show ?thesis by (intro conjI)
qed

text \<open>
  C5. A re-evaluation request is refused with 404 for an unknown task id, and
  with 400 when the entry has no submission or the submission's page address
  is empty; the registry is then unchanged. Otherwise the entry gets the
  status \<^verbatim>\<open>re-evaluating\<close>, no completion time, no check results and a new
  submission time, and the handler records the call of the runner with the
  checks of the stored request and the page address of the stored submission.
\<close>

theorem re_evaluation_checked:
  "(DB tid = None \<longrightarrow>
      re_evaluate tid now DB = (DB, Inl (HTTPException 404 ''Task ID not found.''))
      \<and> client_error (HTTPException 404 ''Task ID not found.''))
   \<and> (DB tid = Some e \<and> submission_data (evaluation e) = None \<longrightarrow>
      re_evaluate tid now DB
        = (DB, Inl (HTTPException 400 ''No submission data available to evaluate.''))
      \<and> client_error (HTTPException 400 ''No submission data available to evaluate.''))
   \<and> (DB tid = Some e \<and> submission_data (evaluation e) = Some sd \<and> sb_pages_url sd = []
      \<longrightarrow> re_evaluate tid now DB
            = (DB, Inl (HTTPException 400 ''Submission does not include a pages_url.''))
          \<and> client_error (HTTPException 400 ''Submission does not include a pages_url.''))
   \<and> (DB tid = Some e \<and> submission_data (evaluation e) = Some sd \<and> sb_pages_url sd \<noteq> []
      \<longrightarrow> re_evaluate tid now DB =
            (DB(tid \<mapsto>
               e\<lparr>evaluation := (evaluation e)
                   \<lparr>status := ''re-evaluating'', evaluation_completed_at := None,
                    check_results := [], submitted_at := Some now\<rparr>\<rparr>),
             Inr ([(''status'', ''accepted''), (''detail'', ''Re-evaluation started.'')],
                  \<lparr>bt_pages_url = sb_pages_url sd, bt_checks = rq_checks (request e),
                   bt_task_id = tid\<rparr>)))"
proof -
  have unknown: "re_evaluate tid now DB = (DB, Inl (HTTPException 404 ''Task ID not found.''))"
    if "DB tid = None"
    using that by (simp add: re_evaluate_def)
  have none: "re_evaluate tid now DB
        = (DB, Inl (HTTPException 400 ''No submission data available to evaluate.''))"
    if "DB tid = Some e" and "submission_data (evaluation e) = None"
    using that by (simp add: re_evaluate_def)
  have nourl: "re_evaluate tid now DB
            = (DB, Inl (HTTPException 400 ''Submission does not include a pages_url.''))"
    if "DB tid = Some e" and "submission_data (evaluation e) = Some sd" and "sb_pages_url sd = []"
    using that by (simp add: re_evaluate_def Let_def)
  have again: "re_evaluate tid now DB =
            (DB(tid \<mapsto>
               e\<lparr>evaluation := (evaluation e)
                   \<lparr>status := ''re-evaluating'', evaluation_completed_at := None,
                    check_results := [], submitted_at := Some now\<rparr>\<rparr>),
             Inr ([(''status'', ''accepted''), (''detail'', ''Re-evaluation started.'')],
                  \<lparr>bt_pages_url = sb_pages_url sd, bt_checks = rq_checks (request e),
                   bt_task_id = tid\<rparr>))"
    if "DB tid = Some e" and "submission_data (evaluation e) = Some sd" and "sb_pages_url sd \<noteq> []"
    using that by (simp add: re_evaluate_def Let_def)
  have c: "client_error (HTTPException 404 ''Task ID not found.'')"
    "client_error (HTTPException 400 ''No submission data available to evaluate.'')"
    "client_error (HTTPException 400 ''Submission does not include a pages_url.'')"
    by (simp_all add: client_error_def)
  from unknown none nourl again c show ?thesis by (intro conjI impI; (elim conjE)?; simp)
qed

theorem re_evaluation_checked_witness:
  "re_evaluate ''sales-report-a8b3d'' 500 empty_db
     = (empty_db, Inl (HTTPException 404 ''Task ID not found.''))
   \<and> re_evaluate ''sales-report-a8b3d'' 500 db_dispatched
     = (db_dispatched, Inl (HTTPException 400 ''No submission data available to evaluate.''))
   \<and> re_evaluate ''sales-report-a8b3d'' 500 db_no_url
     = (db_no_url, Inl (HTTPException 400 ''Submission does not include a pages_url.''))
   \<and> task_status (fst (re_evaluate ''sales-report-a8b3d'' 500 db_completed))
        ''sales-report-a8b3d'' = Some ''re-evaluating''
   \<and> task_check_results (fst (re_evaluate ''sales-report-a8b3d'' 500 db_completed))
        ''sales-report-a8b3d'' = Some []
   \<and> snd (re_evaluate ''sales-report-a8b3d'' 500 db_completed)
     = Inr ([(''status'', ''accepted''), (''detail'', ''Re-evaluation started.'')],
            \<lparr>bt_pages_url = pages_url_1, bt_checks = td_checks sales_report_1,
             bt_task_id = ''sales-report-a8b3d''\<rparr>)"
proof -
  obtain e2 where e2: "db_dispatched ''sales-report-a8b3d'' = Some e2"
    and s2: "submission_data (evaluation e2) = None"
    using db_dispatched_request by blast
  obtain e3 where e3: "db_no_url ''sales-report-a8b3d'' = Some e3"
    and s3: "submission_data (evaluation e3) = Some submission_no_url"
    using db_no_url_submission by blast
  obtain e4 where e4: "db_completed ''sales-report-a8b3d'' = Some e4"
    and s4: "submission_data (evaluation e4) = Some submission_1"
    and c4: "rq_checks (request e4) = td_checks sales_report_1"
    using db_completed_submission by blast
  have u3: "sb_pages_url submission_no_url = []" by (simp add: submission_no_url_def)
  have u4: "sb_pages_url submission_1 = pages_url_1" by (simp add: submission_1_def)
  have n4: "sb_pages_url submission_1 \<noteq> []" by (simp add: submission_1_def pages_url_1_def)
  have h1: "empty_db ''sales-report-a8b3d'' = None" by (simp add: empty_db_def)
  note w1 = re_evaluation_checked [where tid = "''sales-report-a8b3d''" and now = 500
      and DB = empty_db, THEN conjunct1, THEN mp, OF h1, THEN conjunct1]
  note w2 = re_evaluation_checked [where tid = "''sales-report-a8b3d''" and now = 500
      and DB = db_dispatched and e = e2, THEN conjunct2, THEN conjunct1, THEN mp,
      OF conjI [OF e2 s2], THEN conjunct1]
  note w3 = re_evaluation_checked [where tid = "''sales-report-a8b3d''" and now = 500
      and DB = db_no_url and e = e3 and sd = submission_no_url,
      THEN conjunct2, THEN conjunct2, THEN conjunct1, THEN mp,
      OF conjI [OF e3 conjI [OF s3 u3]], THEN conjunct1]
  note w4 = re_evaluation_checked [where tid = "''sales-report-a8b3d''" and now = 500
      and DB = db_completed and e = e4 and sd = submission_1,
      THEN conjunct2, THEN conjunct2, THEN conjunct2, THEN mp,
      OF conjI [OF e4 conjI [OF s4 n4]]]
  have a: "task_status (fst (re_evaluate ''sales-report-a8b3d'' 500 db_completed))
        ''sales-report-a8b3d'' = Some ''re-evaluating''"
    and b: "task_check_results (fst (re_evaluate ''sales-report-a8b3d'' 500 db_completed))
        ''sales-report-a8b3d'' = Some []"
    and c: "snd (re_evaluate ''sales-report-a8b3d'' 500 db_completed)
     = Inr ([(''status'', ''accepted''), (''detail'', ''Re-evaluation started.'')],
            \<lparr>bt_pages_url = pages_url_1, bt_checks = td_checks sales_report_1,
             bt_task_id = ''sales-report-a8b3d''\<rparr>)"
    by (simp_all add: w4 task_status_def task_check_results_def u4 c4)
  from w1 w2 w3 a b c show ?thesis by (intro conjI)
qed



end
